theory Spec2Isabelle
  imports Complex_Main
begin

section \<open>Python values and exceptions\<close>

text \<open>
  The client handles what \<^verbatim>\<open>json.loads\<close> returns and what its callers pass in:
  dynamically typed Python values. A \<^verbatim>\<open>decimal.Decimal\<close> is kept as Python keeps
  it, sign, coefficient and exponent; a finite \<^verbatim>\<open>float\<close> by the rational it denotes,
  and the floats \<^verbatim>\<open>inf\<close>, \<^verbatim>\<open>-inf\<close> and \<^verbatim>\<open>nan\<close> are \<open>SInf False\<close>, \<open>SInf True\<close> and
  \<open>SNaN\<close>. A dict with string keys is an association list in insertion order; where a
  key occurs twice the later entry is the dict's.
\<close>

datatype decimal = Decimal bool nat int

datatype scalar =
    SNone
  | SBool bool
  | SInt int
  | SFloat rat
  | SInf bool
  | SNaN
  | SDec decimal
  | SStr string

datatype pyval =
    Atom scalar
  | PList "pyval list"
  | PDict "(string \<times> pyval) list"

abbreviation PNone :: pyval where "PNone \<equiv> Atom SNone"
abbreviation PBool :: "bool \<Rightarrow> pyval" where "PBool b \<equiv> Atom (SBool b)"
abbreviation PInt :: "int \<Rightarrow> pyval" where "PInt i \<equiv> Atom (SInt i)"
abbreviation PStr :: "string \<Rightarrow> pyval" where "PStr s \<equiv> Atom (SStr s)"
abbreviation PDec :: "decimal \<Rightarrow> pyval" where "PDec d \<equiv> Atom (SDec d)"

text \<open>The classes of \<^verbatim>\<open>rpc.py\<close>: the base class and its registered subclasses.\<close>

datatype rpc_kind =
    JSONRPCError
  | ForbiddenBySafeModeError
  | InvalidAddressOrKeyError
  | InvalidParameterError
  | VerifyError
  | VerifyRejectedError
  | VerifyAlreadyInChainError
  | InWarmupError

text \<open>
  Every exception the modelled code can raise. \<open>RPCError k e\<close> is an instance of class
  \<open>k\<close> whose \<^verbatim>\<open>error\<close> attribute is \<open>e\<close>; \<open>PyException v\<close> is
  \<^verbatim>\<open>Exception(v)\<close>; \<open>TransportError\<close> stands for whatever \<^verbatim>\<open>http.client\<close> raises.
\<close>

datatype exn =
    RPCError rpc_kind pyval
  | PyException pyval
  | KeyError pyval
  | IndexError
  | TypeError
  | AttributeError
  | NameError
  | ValueError
  | BinasciiError
  | UnicodeEncodeError
  | UnicodeDecodeError
  | JSONDecodeError
  | InvalidOperation
  | TransportError string

section \<open>Operations on Python values\<close>

definition bindE :: "exn + 'a \<Rightarrow> ('a \<Rightarrow> exn + 'b) \<Rightarrow> exn + 'b" where
  \<comment> \<open>sequencing: an exception raised by the first step propagates\<close>
  "bindE r f = (case r of Inl e \<Rightarrow> Inl e | Inr a \<Rightarrow> f a)"

definition dict_get :: "(string \<times> pyval) list \<Rightarrow> string \<Rightarrow> pyval option" where
  "dict_get d k = map_of (rev d) k"

definition getitem_str :: "pyval \<Rightarrow> string \<Rightarrow> exn + pyval" where
  \<comment> \<open>\<^verbatim>\<open>v[k]\<close> for a string \<open>k\<close>: only a dict can be subscripted by a string\<close>
  "getitem_str v k =
     (case v of
        PDict d \<Rightarrow> (case dict_get d k of None \<Rightarrow> Inl (KeyError (PStr k)) | Some x \<Rightarrow> Inr x)
      | _ \<Rightarrow> Inl TypeError)"

definition getitem0 :: "pyval \<Rightarrow> exn + pyval" where
  \<comment> \<open>\<^verbatim>\<open>v[0]\<close>\<close>
  "getitem0 v =
     (case v of
        PList xs \<Rightarrow> (case xs of [] \<Rightarrow> Inl IndexError | x # _ \<Rightarrow> Inr x)
      | PDict d \<Rightarrow> Inl (KeyError (PInt 0))
      | Atom (SStr s) \<Rightarrow> (case s of [] \<Rightarrow> Inl IndexError | c # _ \<Rightarrow> Inr (PStr [c]))
      | _ \<Rightarrow> Inl TypeError)"

definition py_iter :: "pyval \<Rightarrow> exn + pyval list" where
  \<comment> \<open>the items a \<^verbatim>\<open>for\<close> loop over \<open>v\<close> visits\<close>
  "py_iter v =
     (case v of
        PList xs \<Rightarrow> Inr xs
      | PDict d \<Rightarrow> Inr (map PStr (rev (remdups (rev (map fst d)))))
      | Atom (SStr s) \<Rightarrow> Inr (map (\<lambda>c. PStr [c]) s)
      | _ \<Rightarrow> Inl TypeError)"

fun dec_val :: "decimal \<Rightarrow> rat" where
  "dec_val (Decimal sign coeff e) =
     (if sign then - 1 else 1) * of_nat coeff *
     (if 0 \<le> e then 10 ^ nat e else 1 / 10 ^ nat (- e))"

fun num_val :: "scalar \<Rightarrow> rat option" where
  \<comment> \<open>the number a numeric value denotes; \<^verbatim>\<open>bool\<close> is a subclass of \<^verbatim>\<open>int\<close>\<close>
  "num_val (SBool b) = Some (if b then 1 else 0)"
| "num_val (SInt i) = Some (of_int i)"
| "num_val (SFloat r) = Some r"
| "num_val (SDec d) = Some (dec_val d)"
| "num_val _ = None"

text \<open>
  For the ordering, a number is a rational or one of the three special floats.
  Comparisons with \<^verbatim>\<open>nan\<close> are false, except that \<^verbatim>\<open>Decimal\<close> refuses to order itself
  against \<^verbatim>\<open>nan\<close> and raises \<^verbatim>\<open>InvalidOperation\<close>.
\<close>

datatype xnum = XNaN | XNegInf | XFin rat | XPosInf

fun xval :: "scalar \<Rightarrow> xnum option" where
  "xval (SInf neg) = Some (if neg then XNegInf else XPosInf)"
| "xval SNaN = Some XNaN"
| "xval a = map_option XFin (num_val a)"

fun xgt :: "xnum \<Rightarrow> xnum \<Rightarrow> bool" where
  "xgt (XFin p) (XFin q) = (q < p)"
| "xgt XPosInf y = (y \<noteq> XPosInf \<and> y \<noteq> XNaN)"
| "xgt x XNegInf = (x \<noteq> XNegInf \<and> x \<noteq> XNaN)"
| "xgt x y = False"

definition is_dec :: "scalar \<Rightarrow> bool" where
  "is_dec a = (case a of SDec d \<Rightarrow> True | _ \<Rightarrow> False)"

definition py_eq :: "pyval \<Rightarrow> scalar \<Rightarrow> bool" where
  \<comment> \<open>\<^verbatim>\<open>v == k\<close> for a scalar \<open>k\<close>: numbers compare by value across types, \<^verbatim>\<open>nan\<close>
      equals nothing\<close>
  "py_eq v k =
     (case v of
        Atom a \<Rightarrow>
          (case (num_val a, num_val k) of
             (Some p, Some q) \<Rightarrow> p = q
           | (None, None) \<Rightarrow> a = k \<and> a \<noteq> SNaN
           | _ \<Rightarrow> False)
      | _ \<Rightarrow> False)"

fun str_gt :: "string \<Rightarrow> string \<Rightarrow> bool" where
  "str_gt [] _ = False"
| "str_gt (x # xs) [] = True"
| "str_gt (x # xs) (y # ys) =
     (if (of_char x :: nat) = of_char y then str_gt xs ys else (of_char y :: nat) < of_char x)"

definition py_gt :: "pyval \<Rightarrow> scalar \<Rightarrow> exn + bool" where
  \<comment> \<open>\<^verbatim>\<open>v > k\<close> for a scalar \<open>k\<close>: numbers by value, strings by code point, else TypeError\<close>
  "py_gt v k =
     (case v of
        Atom a \<Rightarrow>
          (case (xval a, xval k) of
             (Some x, Some y) \<Rightarrow>
               if (x = XNaN \<or> y = XNaN) \<and> (is_dec a \<or> is_dec k) then Inl InvalidOperation
               else Inr (xgt x y)
           | _ \<Rightarrow>
             (case (a, k) of
                (SStr s, SStr t) \<Rightarrow> Inr (str_gt s t)
              | _ \<Rightarrow> Inl TypeError))
      | _ \<Rightarrow> Inl TypeError)"

fun encodable :: "pyval \<Rightarrow> bool" where
  \<comment> \<open>\<^verbatim>\<open>json.dumps\<close> accepts the value: it holds no \<^verbatim>\<open>Decimal\<close>\<close>
  "encodable (Atom a) = (case a of SDec _ \<Rightarrow> False | _ \<Rightarrow> True)"
| "encodable (PList xs) = list_all encodable xs"
| "encodable (PDict d) = list_all (\<lambda>kv. encodable (snd kv)) d"

section \<open>Memo codec (\<^verbatim>\<open>utils.py\<close>)\<close>

type_synonym bytes = "nat list"

definition rstrip0 :: "string \<Rightarrow> string" where
  \<comment> \<open>\<^verbatim>\<open>msg.rstrip('0')\<close>\<close>
  "rstrip0 s = rev (dropWhile (\<lambda>c. c = CHR ''0'') (rev s))"

definition hexval :: "char \<Rightarrow> nat option" where
  "hexval c =
     (let n = (of_char c :: nat) in
      if 48 \<le> n \<and> n \<le> 57 then Some (n - 48)
      else if 97 \<le> n \<and> n \<le> 102 then Some (n - 87)
      else if 65 \<le> n \<and> n \<le> 70 then Some (n - 55)
      else None)"

fun unhex_pairs :: "string \<Rightarrow> bytes option" where
  "unhex_pairs (a # b # rest) =
     (case (hexval a, hexval b, unhex_pairs rest) of
        (Some h, Some l, Some bs) \<Rightarrow> Some ((16 * h + l) # bs)
      | _ \<Rightarrow> None)"
| "unhex_pairs _ = Some []"

definition unhexlify :: "string \<Rightarrow> exn + bytes" where
  \<comment> \<open>\<^verbatim>\<open>binascii.unhexlify\<close> of a str: ASCII only, an even number of hex digits\<close>
  "unhexlify s =
     (if \<not> list_all (\<lambda>c. (of_char c :: nat) < 128) s then Inl ValueError
      else if odd (length s) then Inl BinasciiError
      else case unhex_pairs s of None \<Rightarrow> Inl BinasciiError | Some bs \<Rightarrow> Inr bs)"

definition decode_ascii :: "bytes \<Rightarrow> exn + string" where
  \<comment> \<open>\<^verbatim>\<open>bytes.decode('ascii')\<close>\<close>
  "decode_ascii bs =
     (if list_all (\<lambda>b. b < 128) bs then Inr (map char_of bs) else Inl UnicodeDecodeError)"

definition encode_ascii :: "string \<Rightarrow> exn + bytes" where
  \<comment> \<open>\<^verbatim>\<open>bytes(msg, encoding="ascii")\<close>\<close>
  "encode_ascii s =
     (if list_all (\<lambda>c. (of_char c :: nat) < 128) s then Inr (map of_char s)
      else Inl UnicodeEncodeError)"

definition hexdigit :: "nat \<Rightarrow> char" where
  "hexdigit n = ''0123456789abcdef'' ! n"

definition b2a_hex :: "bytes \<Rightarrow> string" where
  \<comment> \<open>\<^verbatim>\<open>str(binascii.b2a_hex(bs), 'ascii')\<close>: two lower-case digits a byte\<close>
  "b2a_hex bs = concat (map (\<lambda>b. [hexdigit (b div 16), hexdigit (b mod 16)]) bs)"

definition hex_decode :: "string \<Rightarrow> exn + string option" where
  \<comment> \<open>\<open>Inr None\<close> is Python's implicit \<^verbatim>\<open>return None\<close> when the stripped memo is \<^verbatim>\<open>'f6'\<close>\<close>
  "hex_decode msg =
     (let msgstr = rstrip0 msg in
      if msgstr \<noteq> ''f6'' then
        (case unhexlify msgstr of
           Inl e \<Rightarrow> Inl e
         | Inr bs \<Rightarrow> (case decode_ascii bs of Inl e \<Rightarrow> Inl e | Inr decoded \<Rightarrow> Inr (Some decoded)))
      else Inr None)"

definition format_amounts :: "pyval \<Rightarrow> pyval \<Rightarrow> string \<Rightarrow> exn + pyval" where
  "format_amounts receiver amount msg =
     (if msg = '''' then
        Inr (PList [PDict [(''address'', receiver), (''amount'', amount)]])
      else
        (case encode_ascii msg of
           Inl e \<Rightarrow> Inl e
         | Inr bs \<Rightarrow>
             Inr (PList [PDict [(''address'', receiver), (''amount'', amount),
                                (''memo'', PStr (b2a_hex bs))]])))"

definition printable :: "string \<Rightarrow> bool" where
  \<comment> \<open>every character is a printable ASCII character, \<^verbatim>\<open>0x20\<close> to \<^verbatim>\<open>0x7e\<close>\<close>
  "printable s = list_all (\<lambda>c. 32 \<le> (of_char c :: nat) \<and> (of_char c :: nat) \<le> 126) s"

section \<open>Decoding a response body (\<^verbatim>\<open>json.loads(..., parse_float=decimal.Decimal)\<close>)\<close>

text \<open>
  A response body is a JSON document. Its number literals are kept as the text the node
  wrote, since how a number is read is what \<^verbatim>\<open>_get_response\<close> configures: Python's
  scanner matches \<^verbatim>\<open>(-?(?:0|[1-9]\d*))(\.\d+)?([eE][-+]?\d+)?\<close>, reads a literal with
  neither fraction nor exponent by \<^verbatim>\<open>int\<close>, and hands every other literal to the
  \<^verbatim>\<open>parse_float\<close> hook, here \<^verbatim>\<open>decimal.Decimal\<close>. The scanner also accepts the
  constants \<^verbatim>\<open>NaN\<close>, \<^verbatim>\<open>Infinity\<close> and \<^verbatim>\<open>-Infinity\<close>, which are no JSON and which it
  returns as floats. String tokens hold the string already unescaped.

  Both conversions have limits, which belong to the Python that runs the client and are
  parameters here. \<^verbatim>\<open>int\<close> raises \<^verbatim>\<open>ValueError\<close> on more digits than
  \<^verbatim>\<open>sys.get_int_max_str_digits()\<close> (4300 by default, 0 for none; strings of at most 640
  digits are never refused). \<^verbatim>\<open>Decimal\<close> raises \<^verbatim>\<open>InvalidOperation\<close> when the number
  cannot be held exactly within \<^verbatim>\<open>decimal.MAX_PREC\<close>, \<^verbatim>\<open>MAX_EMAX\<close> and \<^verbatim>\<open>MIN_ETINY\<close>
  (999999999999999999 for the first two on a 64-bit build, where \<^verbatim>\<open>MIN_ETINY\<close> is
  -1999999999999999997): more significant or fraction digits than \<^verbatim>\<open>MAX_PREC\<close>, an
  adjusted exponent above \<^verbatim>\<open>MAX_EMAX\<close>, or an exponent below \<^verbatim>\<open>MIN_ETINY\<close>. It never
  rounds.
\<close>

datatype jtok =
    TNull
  | TBool bool
  | TNum string
  | TNaN
  | TInfinity
  | TNegInfinity
  | TStr string
  | TArr "jtok list"
  | TObj "(string \<times> jtok) list"

text \<open>A scanned number: negative?, integer digits, fraction digits, exponent (negative?, digits).\<close>

type_synonym numlit = "bool \<times> string \<times> string option \<times> (bool \<times> string) option"

definition is_digit :: "char \<Rightarrow> bool" where
  "is_digit c = (48 \<le> (of_char c :: nat) \<and> (of_char c :: nat) \<le> 57)"

definition digits_val :: "string \<Rightarrow> nat" where
  "digits_val ds = foldl (\<lambda>a c. 10 * a + (of_char c - 48)) 0 ds"

definition scan_exp :: "string \<Rightarrow> (bool \<times> string) option option" where
  \<comment> \<open>\<^verbatim>\<open>([eE][-+]?\d+)?\<close> up to the end of the literal; the outer \<open>None\<close> is no match\<close>
  "scan_exp s =
     (case s of
        [] \<Rightarrow> Some None
      | c # r \<Rightarrow>
          if c = CHR ''e'' \<or> c = CHR ''E'' then
            (let (eneg, ds) =
                   (case r of
                      [] \<Rightarrow> (False, r)
                    | d # r' \<Rightarrow>
                        if d = CHR ''-'' then (True, r')
                        else if d = CHR ''+'' then (False, r')
                        else (False, r))
             in if ds \<noteq> [] \<and> list_all is_digit ds then Some (Some (eneg, ds)) else None)
          else None)"

definition scan_frac :: "string \<Rightarrow> (string option \<times> string) option" where
  \<comment> \<open>\<^verbatim>\<open>(\.\d+)?\<close>: the fraction digits and the rest\<close>
  "scan_frac s =
     (case s of
        [] \<Rightarrow> Some (None, [])
      | c # r \<Rightarrow>
          if c = CHR ''.'' then
            (if takeWhile is_digit r = [] then None
             else Some (Some (takeWhile is_digit r), dropWhile is_digit r))
          else Some (None, s))"

definition scan_number :: "string \<Rightarrow> numlit option" where
  "scan_number s =
     (let (neg, t) =
            (case s of
               [] \<Rightarrow> (False, s)
             | c # r \<Rightarrow> if c = CHR ''-'' then (True, r) else (False, s));
          ip = takeWhile is_digit t
      in if ip = [] \<or> (hd ip = CHR ''0'' \<and> 1 < length ip) then None
         else
           (case scan_frac (dropWhile is_digit t) of
              None \<Rightarrow> None
            | Some (fp, rest) \<Rightarrow>
                (case scan_exp rest of
                   None \<Rightarrow> None
                 | Some ep \<Rightarrow> Some (neg, ip, fp, ep))))"

definition py_int :: "bool \<Rightarrow> string \<Rightarrow> int" where
  \<comment> \<open>the value of \<^verbatim>\<open>int(integer)\<close>\<close>
  "py_int neg ds = (if neg then - int (digits_val ds) else int (digits_val ds))"

definition int_new :: "nat \<Rightarrow> bool \<Rightarrow> string \<Rightarrow> exn + int" where
  \<comment> \<open>\<^verbatim>\<open>int(integer)\<close> under the limit \<open>L\<close> on the number of digits, the sign not counted\<close>
  "int_new L neg ds =
     (if 640 < length ds \<and> 0 < L \<and> L < length ds then Inl ValueError
      else Inr (py_int neg ds))"

definition Decimal_of :: "numlit \<Rightarrow> decimal" where
  \<comment> \<open>the value \<^verbatim>\<open>decimal.Decimal(integer + frac + exp)\<close> builds: the coefficient is the
      digits of the integer and fraction parts, the exponent is the written one less the
      number of fraction digits; nothing is rounded\<close>
  "Decimal_of lit =
     (case lit of (neg, ip, fp, ep) \<Rightarrow>
        (let f = (case fp of None \<Rightarrow> [] | Some ds \<Rightarrow> ds);
             e = (case ep of None \<Rightarrow> 0 | Some (eneg, ds) \<Rightarrow> py_int eneg ds)
         in Decimal neg (digits_val (ip @ f)) (e - int (length f))))"

definition sig_digits :: "string \<Rightarrow> nat" where
  \<comment> \<open>the number of digits of the coefficient: leading zeros do not count, zero has one\<close>
  "sig_digits ds =
     (if dropWhile (\<lambda>c. c = CHR ''0'') ds = [] then 1
      else length (dropWhile (\<lambda>c. c = CHR ''0'') ds))"

definition decimal_fits :: "int \<Rightarrow> numlit \<Rightarrow> bool" where
  \<comment> \<open>the literal is within what a \<^verbatim>\<open>Decimal\<close> holds when \<^verbatim>\<open>MAX_PREC\<close> and
      \<^verbatim>\<open>MAX_EMAX\<close> are \<open>M\<close> and \<^verbatim>\<open>MIN_ETINY\<close> is \<open>-(2M - 1)\<close>\<close>
  "decimal_fits M lit =
     (case lit of (neg, ip, fp, ep) \<Rightarrow>
        (let f = (case fp of None \<Rightarrow> [] | Some ds \<Rightarrow> ds);
             e = (case ep of None \<Rightarrow> 0 | Some (eneg, ds) \<Rightarrow> py_int eneg ds);
             ex = e - int (length f)
         in int (length f) \<le> M \<and> int (sig_digits (ip @ f)) \<le> M \<and>
            ex + int (sig_digits (ip @ f)) - 1 \<le> M \<and>
            - (2 * M - 1) \<le> ex))"

definition Decimal_new :: "int \<Rightarrow> numlit \<Rightarrow> exn + scalar" where
  \<comment> \<open>\<^verbatim>\<open>decimal.Decimal(integer + frac + exp)\<close>: the exact value or \<^verbatim>\<open>InvalidOperation\<close>\<close>
  "Decimal_new M lit =
     (if decimal_fits M lit then Inr (SDec (Decimal_of lit)) else Inl InvalidOperation)"

definition loads_number ::
  "nat \<Rightarrow> (numlit \<Rightarrow> exn + scalar) \<Rightarrow> string \<Rightarrow> exn + pyval" where
  "loads_number L parse_float s =
     (case scan_number s of
        None \<Rightarrow> Inl JSONDecodeError
      | Some (neg, ip, fp, ep) \<Rightarrow>
          if fp = None \<and> ep = None then
            (case int_new L neg ip of Inl e \<Rightarrow> Inl e | Inr i \<Rightarrow> Inr (PInt i))
          else
            (case parse_float (neg, ip, fp, ep) of Inl e \<Rightarrow> Inl e | Inr a \<Rightarrow> Inr (Atom a)))"

fun sequenceE :: "(exn + 'a) list \<Rightarrow> exn + 'a list" where
  \<comment> \<open>the values in order, or the first exception\<close>
  "sequenceE [] = Inr []"
| "sequenceE (r # rs) =
     (case r of
        Inl e \<Rightarrow> Inl e
      | Inr a \<Rightarrow> (case sequenceE rs of Inl e \<Rightarrow> Inl e | Inr as \<Rightarrow> Inr (a # as)))"

fun json_loads :: "nat \<Rightarrow> (numlit \<Rightarrow> exn + scalar) \<Rightarrow> jtok \<Rightarrow> exn + pyval" where
  "json_loads L pf TNull = Inr PNone"
| "json_loads L pf (TBool b) = Inr (PBool b)"
| "json_loads L pf (TNum s) = loads_number L pf s"
| "json_loads L pf TNaN = Inr (Atom SNaN)"
| "json_loads L pf TInfinity = Inr (Atom (SInf False))"
| "json_loads L pf TNegInfinity = Inr (Atom (SInf True))"
| "json_loads L pf (TStr s) = Inr (PStr s)"
| "json_loads L pf (TArr ts) =
     (case sequenceE (map (json_loads L pf) ts) of Inl e \<Rightarrow> Inl e | Inr vs \<Rightarrow> Inr (PList vs))"
| "json_loads L pf (TObj kts) =
     (case sequenceE (map (\<lambda>kt. json_loads L pf (snd kt)) kts) of
        Inl e \<Rightarrow> Inl e
      | Inr vs \<Rightarrow> Inr (PDict (zip (map fst kts) vs)))"




section \<open>The JSON-RPC client (\<^verbatim>\<open>rpc.py\<close>)\<close>

text \<open>
  What the HTTP layer does with the request of a call: \<^verbatim>\<open>conn.request\<close>,
  \<^verbatim>\<open>getresponse\<close> or \<^verbatim>\<open>read\<close> raises; \<^verbatim>\<open>getresponse\<close> returns \<^verbatim>\<open>None\<close>; the body is
  not UTF-8; the body is not JSON; or the body is a JSON document.
\<close>

datatype http_outcome =
    Raises exn
  | NoResponse
  | Undecodable
  | Malformed
  | Doc jtok

text \<open>
  The world outside the client: the node and the HTTP layer answer the request stamped
  \<open>n\<close> with \<open>http n\<close>, the \<open>k\<close>-th reading of \<^verbatim>\<open>time.time()\<close> is \<open>clock k\<close>, and
  two library functions are left as they are, \<^verbatim>\<open>time.ctime\<close> and the \<^verbatim>\<open>str()\<close> of a
  value that is neither a string, \<^verbatim>\<open>None\<close>, a bool nor a special float. The last two
  fields are the limits of \<^verbatim>\<open>int\<close> and of \<^verbatim>\<open>Decimal\<close>.
\<close>

record env =
  http :: "nat \<Rightarrow> http_outcome"
  clock :: "nat \<Rightarrow> rat"
  ctime :: "pyval \<Rightarrow> exn + string"
  str_other :: "pyval \<Rightarrow> string"
  int_max_str_digits :: nat
  decimal_max :: int

text \<open>The request \<^verbatim>\<open>_call\<close> serialises: the keys \<^verbatim>\<open>method\<close>, \<^verbatim>\<open>params\<close> and \<^verbatim>\<open>id\<close>.\<close>

record request =
  rpc_method :: string
  params :: "pyval list"
  rid :: nat

datatype event =
    PrintNoFrom pyval
  | PrintStatus pyval pyval
  | WriteSending
  | WriteDot
  | Sleep nat
  | PrintSuccess pyval
  | PrintFailed pyval
  | PrintTimedOut pyval

text \<open>
  The state the code changes: the proxy's \<^verbatim>\<open>__id_count\<close>, the requests handed to the
  connection, the number of clock readings, and what was written to the terminal and
  slept, in order.
\<close>

record state =
  id_count :: nat
  posted :: "request list"
  ticks :: nat
  trace :: "event list"

definition init_state :: state where
  \<comment> \<open>\<^verbatim>\<open>BaseProxy.__init__\<close>: \<^verbatim>\<open>self.__id_count = 0\<close>\<close>
  "init_state = \<lparr>id_count = 0, posted = [], ticks = 0, trace = []\<rparr>"

definition emit :: "state \<Rightarrow> event \<Rightarrow> state" where
  "emit s ev = s\<lparr>trace := trace s @ [ev]\<rparr>"

definition time_time :: "env \<Rightarrow> state \<Rightarrow> rat \<times> state" where
  "time_time E s = (clock E (ticks s), s\<lparr>ticks := Suc (ticks s)\<rparr>)"

definition py_str :: "env \<Rightarrow> pyval \<Rightarrow> string" where
  \<comment> \<open>\<^verbatim>\<open>str(v)\<close>\<close>
  "py_str E v =
     (case v of
        Atom (SStr s) \<Rightarrow> s
      | Atom SNone \<Rightarrow> ''None''
      | Atom (SBool b) \<Rightarrow> (if b then ''True'' else ''False'')
      | Atom (SInf neg) \<Rightarrow> (if neg then ''-inf'' else ''inf'')
      | Atom SNaN \<Rightarrow> ''nan''
      | _ \<Rightarrow> str_other E v)"

definition SUBCLS_BY_CODE :: "(int \<times> rpc_kind) list" where
  "SUBCLS_BY_CODE =
     [(- 2, ForbiddenBySafeModeError), (- 5, InvalidAddressOrKeyError),
      (- 8, InvalidParameterError), (- 25, VerifyError), (- 26, VerifyRejectedError),
      (- 27, VerifyAlreadyInChainError), (- 28, InWarmupError)]"

definition subcls_get :: "pyval \<Rightarrow> exn + rpc_kind" where
  \<comment> \<open>\<^verbatim>\<open>SUBCLS_BY_CODE.get(code, JSONRPCError)\<close>: a number finds the entry of the integer
      it equals, a list or a dict cannot be hashed\<close>
  "subcls_get code =
     (case code of
        Atom a \<Rightarrow>
          (case num_val a of
             None \<Rightarrow> Inr JSONRPCError
           | Some q \<Rightarrow>
               if of_int \<lfloor>q\<rfloor> = q then
                 (case map_of SUBCLS_BY_CODE \<lfloor>q\<rfloor> of None \<Rightarrow> Inr JSONRPCError | Some k \<Rightarrow> Inr k)
               else Inr JSONRPCError)
      | _ \<Rightarrow> Inl TypeError)"

definition JSONRPCError_new :: "pyval \<Rightarrow> exn" where
  \<comment> \<open>what \<^verbatim>\<open>raise JSONRPCError(rpc_error)\<close> raises: the instance, or the exception of
      a failed lookup in \<^verbatim>\<open>__new__\<close>\<close>
  "JSONRPCError_new rpc_error =
     (case bindE (getitem_str rpc_error ''code'') (\<lambda>code.
           bindE (subcls_get code) (\<lambda>cls.
           bindE (getitem_str rpc_error ''message'') (\<lambda>message. Inr cls))) of
        Inl e \<Rightarrow> e
      | Inr cls \<Rightarrow> RPCError cls rpc_error)"

definition get_response :: "env \<Rightarrow> nat \<Rightarrow> exn + pyval" where
  \<comment> \<open>\<^verbatim>\<open>_get_response\<close>, with the transport failures of the request before it\<close>
  "get_response E n =
     (case http E n of
        Raises e \<Rightarrow> Inl e
      | NoResponse \<Rightarrow>
          Inl (JSONRPCError_new
                 (PDict [(''code'', PInt (- 342)),
                         (''message'', PStr ''missing HTTP response from server'')]))
      | Undecodable \<Rightarrow> Inl UnicodeDecodeError
      | Malformed \<Rightarrow> Inl JSONDecodeError
      | Doc t \<Rightarrow> json_loads (int_max_str_digits E) (Decimal_new (decimal_max E)) t)"

definition call :: "env \<Rightarrow> state \<Rightarrow> string \<Rightarrow> pyval list \<Rightarrow> (exn + pyval) \<times> state" where
  \<comment> \<open>\<^verbatim>\<open>_call\<close>: the counter moves first; \<^verbatim>\<open>json.dumps\<close> raises TypeError on a
      parameter it cannot encode, before anything is handed to the connection\<close>
  "call E s service_name args =
     (let n = id_count s + 1;
          s1 = s\<lparr>id_count := n\<rparr>
      in if \<not> list_all encodable args then (Inl TypeError, s1)
         else
           (let s2 = s1\<lparr>posted := posted s1 @
                          [\<lparr>rpc_method = service_name, params = args, rid = n\<rparr>]\<rparr>
            in case get_response E n of
                 Inl e \<Rightarrow> (Inl e, s2)
               | Inr response \<Rightarrow>
                   (case getitem_str response ''error'' of
                      Inl e \<Rightarrow> (Inl e, s2)
                    | Inr err \<Rightarrow>
                        if err \<noteq> PNone then (Inl (JSONRPCError_new err), s2)
                        else if dict_get (case response of PDict d \<Rightarrow> d | _ \<Rightarrow> []) ''result'' = None
                        then (Inl (JSONRPCError_new
                                     (PDict [(''code'', PInt (- 343)),
                                             (''message'', PStr ''missing JSON-RPC result'')])), s2)
                        else (getitem_str response ''result'', s2))))"

fun calls :: "env \<Rightarrow> state \<Rightarrow> (string \<times> pyval list) list \<Rightarrow> state" where
  \<comment> \<open>a sequence of calls through one client, whatever each returns or raises\<close>
  "calls E s [] = s"
| "calls E s (c # cs) = calls E (snd (call E s (fst c) (snd c))) cs"

definition float_0_0001 :: rat where
  \<comment> \<open>the double that the literal \<^verbatim>\<open>0.0001\<close> denotes\<close>
  "float_0_0001 = 7378697629483821 / 73786976294838206464"

definition gettransaction :: "env \<Rightarrow> state \<Rightarrow> pyval \<Rightarrow> (exn + pyval) \<times> state" where
  \<comment> \<open>for a txid that is no \<^verbatim>\<open>str\<close> the code evaluates \<^verbatim>\<open>b2lx\<close>, a name the module
      does not define\<close>
  "gettransaction E s txid =
     (case txid of
        Atom (SStr t) \<Rightarrow> call E s ''gettransaction'' [txid]
      | _ \<Rightarrow> (Inl NameError, s))"

definition listunspent :: "env \<Rightarrow> state \<Rightarrow> (exn + pyval) \<times> state" where
  \<comment> \<open>with the defaults \<^verbatim>\<open>minconf=0, maxconf=9999999, addrs=None\<close>\<close>
  "listunspent E s = call E s ''listunspent'' [PInt 0, PInt 9999999]"

definition z_getoperationresult :: "env \<Rightarrow> state \<Rightarrow> pyval \<Rightarrow> (exn + pyval) \<times> state" where
  "z_getoperationresult E s opid = call E s ''z_getoperationresult'' [opid]"

definition z_getoperationstatus :: "env \<Rightarrow> state \<Rightarrow> pyval \<Rightarrow> (exn + pyval) \<times> state" where
  "z_getoperationstatus E s opid = call E s ''z_getoperationstatus'' [opid]"

definition z_listreceivedbyaddress ::
  "env \<Rightarrow> state \<Rightarrow> pyval \<Rightarrow> pyval \<Rightarrow> (exn + pyval) \<times> state" where
  "z_listreceivedbyaddress E s zaddr minconf =
     call E s ''z_listreceivedbyaddress'' [PStr (py_str E zaddr), minconf]"

definition z_sendmany :: "env \<Rightarrow> state \<Rightarrow> pyval \<Rightarrow> pyval \<Rightarrow> (exn + pyval) \<times> state" where
  \<comment> \<open>with the defaults \<^verbatim>\<open>minconf=1, fee=0.0001\<close>\<close>
  "z_sendmany E s fromaddress amounts =
     call E s ''z_sendmany''
       [PStr (py_str E fromaddress), amounts, PInt 1, Atom (SFloat float_0_0001)]"

section \<open>The workflows (\<^verbatim>\<open>zmsg.py\<close>)\<close>

definition hex_decode_val :: "pyval \<Rightarrow> exn + string option" where
  \<comment> \<open>\<^verbatim>\<open>hex_decode(v)\<close> for whatever the node sent: only a \<^verbatim>\<open>str\<close> has \<^verbatim>\<open>rstrip\<close>\<close>
  "hex_decode_val v = (case v of Atom (SStr s) \<Rightarrow> hex_decode s | _ \<Rightarrow> Inl AttributeError)"

fun received_loop ::
  "env \<Rightarrow> state \<Rightarrow> pyval list \<Rightarrow> pyval list \<Rightarrow> (exn + pyval list) \<times> state" where
  \<comment> \<open>the \<^verbatim>\<open>for tx in txs\<close> loop of \<^verbatim>\<open>received_by_zaddr\<close>, \<open>msgs\<close> collected so far\<close>
  "received_loop E s [] msgs = (Inr msgs, s)"
| "received_loop E s (tx # rest) msgs =
     (case bindE (getitem_str tx ''memo'') hex_decode_val of
        Inl e \<Rightarrow> (Inl e, s)
      | Inr None \<Rightarrow> received_loop E s rest msgs
      | Inr (Some memo) \<Rightarrow>
          (case getitem_str tx ''txid'' of
             Inl e \<Rightarrow> (Inl e, s)
           | Inr txid \<Rightarrow>
               (case gettransaction E s txid of
                  (Inl e, s1) \<Rightarrow> (Inl e, s1)
                | (Inr resp, s1) \<Rightarrow>
                    (case bindE (getitem_str resp ''time'') (\<lambda>tm.
                          bindE (ctime E tm) (\<lambda>t.
                          bindE (getitem_str tx ''amount'') (\<lambda>amount.
                            Inr (PDict [(''time'', PStr t), (''amount'', amount),
                                        (''memo'', PStr memo)])))) of
                       Inl e \<Rightarrow> (Inl e, s1)
                     | Inr msg \<Rightarrow> received_loop E s1 rest (msgs @ [msg])))))"

definition received_by_zaddr ::
  "env \<Rightarrow> state \<Rightarrow> pyval \<Rightarrow> pyval \<Rightarrow> (exn + pyval list) \<times> state" where
  "received_by_zaddr E s zaddr minconf =
     (case z_listreceivedbyaddress E s zaddr minconf of
        (Inl e, s1) \<Rightarrow> (Inl e, s1)
      | (Inr txs, s1) \<Rightarrow>
          (case py_iter txs of
             Inl e \<Rightarrow> (Inl e, s1)
           | Inr items \<Rightarrow> received_loop E s1 items []))"

fun find_loop :: "pyval list \<Rightarrow> scalar \<Rightarrow> exn + pyval" where
  \<comment> \<open>the \<^verbatim>\<open>for tx in unspent\<close> loop of \<^verbatim>\<open>find_unspent_taddr\<close>; falling off its end
      returns \<^verbatim>\<open>None\<close>\<close>
  "find_loop [] amount = Inr PNone"
| "find_loop (tx # rest) amount =
     (case getitem_str tx ''spendable'' of
        Inl e \<Rightarrow> Inl e
      | Inr sp \<Rightarrow>
          if py_eq sp (SBool True) then
            (case bindE (getitem_str tx ''amount'') (\<lambda>a. py_gt a amount) of
               Inl e \<Rightarrow> Inl e
             | Inr gt \<Rightarrow> if gt then getitem_str tx ''address'' else find_loop rest amount)
          else find_loop rest amount)"

definition find_unspent_taddr :: "env \<Rightarrow> state \<Rightarrow> scalar \<Rightarrow> (exn + pyval) \<times> state" where
  "find_unspent_taddr E s amount =
     (case listunspent E s of
        (Inl e, s1) \<Rightarrow> (Inl e, s1)
      | (Inr unspent, s1) \<Rightarrow>
          (case py_iter unspent of
             Inl e \<Rightarrow> (Inl e, s1)
           | Inr txs \<Rightarrow> (find_loop txs amount, s1)))"

definition status_of :: "pyval \<Rightarrow> exn + pyval" where
  \<comment> \<open>\<^verbatim>\<open>response_array[0]['status']\<close>\<close>
  "status_of response_array = bindE (getitem0 response_array) (\<lambda>x. getitem_str x ''status'')"

definition error_of :: "pyval \<Rightarrow> exn + pyval" where
  \<comment> \<open>\<^verbatim>\<open>response_array[0]['error']\<close>\<close>
  "error_of response_array = bindE (getitem0 response_array) (\<lambda>x. getitem_str x ''error'')"

text \<open>
  The \<^verbatim>\<open>while status == 'executing'\<close> loop of \<^verbatim>\<open>send_msg\<close>. A node that goes on
  answering \<^verbatim>\<open>executing\<close> keeps the loop running for ever, so the loop takes fuel, one
  unit an iteration; \<open>None\<close> is a run that needs more. \<open>Some (Inr (), s)\<close> is the loop
  left normally, \<open>Some (Inl e, s)\<close> an exception out of it.
\<close>

fun poll_loop ::
  "env \<Rightarrow> nat \<Rightarrow> state \<Rightarrow> pyval \<Rightarrow> rat \<Rightarrow> pyval \<Rightarrow> ((exn + unit) \<times> state) option" where
  "poll_loop E 0 s opid start_time status =
     (if py_eq status (SStr ''executing'') then None else Some (Inr (), s))"
| "poll_loop E (Suc fuel) s opid start_time status =
     (if \<not> py_eq status (SStr ''executing'') then Some (Inr (), s)
      else
        (case z_getoperationstatus E (emit s WriteDot) (PList [opid]) of
           (Inl e, s1) \<Rightarrow> Some (Inl e, s1)
         | (Inr response_array, s1) \<Rightarrow>
             (case status_of response_array of
                Inl e \<Rightarrow> Some (Inl e, s1)
              | Inr status' \<Rightarrow>
                  if py_eq status' (SStr ''executing'') then
                    poll_loop E fuel (emit s1 (Sleep 1)) opid start_time status'
                  else if py_eq status' (SStr ''success'') then
                    poll_loop E fuel (emit s1 (PrintSuccess opid)) opid start_time status'
                  else if py_eq status' (SStr ''failed'') then
                    (case error_of response_array of
                       Inl e \<Rightarrow> Some (Inl e, emit s1 (PrintFailed opid))
                     | Inr err \<Rightarrow> Some (Inl (PyException err), emit s1 (PrintFailed opid)))
                  else
                    (case time_time E s1 of
                       (now, s2) \<Rightarrow>
                         if start_time + 120 < now then
                           (case z_getoperationresult E s2 (PList [opid]) of
                              (Inl e, s3) \<Rightarrow> Some (Inl e, s3)
                            | (Inr result, s3) \<Rightarrow>
                                (case status_of result of
                                   Inl e \<Rightarrow> Some (Inl e, s3)
                                 | Inr st \<Rightarrow> Some (Inr (), emit s3 (PrintTimedOut st))))
                         else poll_loop E fuel s2 opid start_time status'))))"

definition submit_and_poll ::
  "env \<Rightarrow> nat \<Rightarrow> state \<Rightarrow> pyval \<Rightarrow> pyval \<Rightarrow> ((exn + unit) \<times> state) option" where
  \<comment> \<open>\<^verbatim>\<open>send_msg\<close> from \<^verbatim>\<open>z_sendmany\<close> on\<close>
  "submit_and_poll E fuel s sender amounts =
     (case z_sendmany E s sender amounts of
        (Inl e, s1) \<Rightarrow> Some (Inl e, s1)
      | (Inr opid, s1) \<Rightarrow>
          (case z_getoperationstatus E s1 (PList [opid]) of
             (Inl e, s2) \<Rightarrow> Some (Inl e, s2)
           | (Inr response_array, s2) \<Rightarrow>
               (case status_of response_array of
                  Inl e \<Rightarrow> Some (Inl e, s2)
                | Inr status \<Rightarrow>
                    (case time_time E (emit s2 (PrintStatus status opid)) of
                       (start_time, s3) \<Rightarrow>
                         poll_loop E fuel (emit s3 WriteSending) opid start_time status))))"

definition send_msg ::
  "env \<Rightarrow> nat \<Rightarrow> state \<Rightarrow> pyval \<Rightarrow> pyval \<Rightarrow> scalar \<Rightarrow> string \<Rightarrow>
     ((exn + unit) \<times> state) option" where
  "send_msg E fuel s sender receiver amount msg =
     (case (if py_eq sender (SStr []) \<or> py_eq sender SNone then
              (case find_unspent_taddr E s amount of
                 (Inl e, s1) \<Rightarrow> (Inl e, s1)
               | (Inr taddr, s1) \<Rightarrow> (Inr taddr, emit s1 (PrintNoFrom taddr)))
            else (Inr sender, s)) of
        (Inl e, s1) \<Rightarrow> Some (Inl e, s1)
      | (Inr sender', s1) \<Rightarrow>
          (case format_amounts receiver (Atom amount) msg of
             Inl e \<Rightarrow> Some (Inl e, s1)
           | Inr amounts \<Rightarrow> submit_and_poll E fuel s1 sender' amounts))"

section \<open>Predicates of the claims\<close>




definition skips :: "pyval \<Rightarrow> scalar \<Rightarrow> bool" where
  \<comment> \<open>the selection loop passes over an output: it is not spendable, or its amount does
      not exceed the requested one\<close>
  "skips tx amount =
     (case getitem_str tx ''spendable'' of
        Inl e \<Rightarrow> False
      | Inr sp \<Rightarrow>
          if py_eq sp (SBool True)
          then bindE (getitem_str tx ''amount'') (\<lambda>a. py_gt a amount) = Inr False
          else True)"

definition selects :: "pyval \<Rightarrow> scalar \<Rightarrow> pyval \<Rightarrow> bool" where
  \<comment> \<open>an output is spendable, its amount exceeds the requested one, its address is \<open>addr\<close>\<close>
  "selects tx amount addr =
     (case getitem_str tx ''spendable'' of
        Inl e \<Rightarrow> False
      | Inr sp \<Rightarrow>
          py_eq sp (SBool True) \<and>
          bindE (getitem_str tx ''amount'') (\<lambda>a. py_gt a amount) = Inr True \<and>
          getitem_str tx ''address'' = Inr addr)"

section \<open>Concrete nodes\<close>

definition script :: "jtok list \<Rightarrow> nat \<Rightarrow> http_outcome" where
  \<comment> \<open>a node that answers the request stamped \<open>n\<close> with the \<open>n\<close>-th document of a list;
      past the list the connection is gone\<close>
  "script docs n =
     (if 1 \<le> n \<and> n \<le> length docs then Doc (docs ! (n - 1))
      else Raises (TransportError ''connection closed''))"

definition node :: "jtok list \<Rightarrow> env" where
  \<comment> \<open>with the limits of a 64-bit CPython 3.11\<close>
  "node docs =
     \<lparr>http = script docs, clock = (\<lambda>k. 0),
      ctime = (\<lambda>v. Inr ''Thu Jan  1 00:00:00 1970''), str_other = (\<lambda>v. ''?''),
      int_max_str_digits = 4300, decimal_max = 999999999999999999\<rparr>"

definition reply :: "jtok \<Rightarrow> jtok" where
  \<comment> \<open>the body \<^verbatim>\<open>{"result": r, "error": null, "id": null}\<close> of a call that succeeded\<close>
  "reply r = TObj [(''result'', r), (''error'', TNull), (''id'', TNull)]"

definition op_status :: "string \<Rightarrow> jtok" where
  \<comment> \<open>the body of \<^verbatim>\<open>z_getoperationstatus\<close> for one operation in the given status\<close>
  "op_status st = reply (TArr [TObj [(''id'', TStr ''opid-1''), (''status'', TStr st)]])"

definition error_doc :: "string \<Rightarrow> string \<Rightarrow> jtok" where
  \<comment> \<open>the body \<^verbatim>\<open>{"result": null, "error": {"code": c, "message": m}, "id": null}\<close>\<close>
  "error_doc code msg =
     TObj [(''result'', TNull),
           (''error'', TObj [(''code'', TNum code), (''message'', TStr msg)]),
           (''id'', TNull)]"

definition sendmany_request :: "string \<Rightarrow> nat \<Rightarrow> request" where
  \<comment> \<open>the \<^verbatim>\<open>z_sendmany\<close> request of \<^verbatim>\<open>send_msg(sender, "z-receiver", 0.0001, "hi")\<close>\<close>
  "sendmany_request sender n =
     \<lparr>rpc_method = ''z_sendmany'',
      params =
        [PStr sender,
         PList [PDict [(''address'', PStr ''z-receiver''),
                       (''amount'', Atom (SFloat float_0_0001)),
                       (''memo'', PStr ''6869'')]],
         PInt 1, Atom (SFloat float_0_0001)],
      rid = n\<rparr>"

definition status_request :: "nat \<Rightarrow> request" where
  \<comment> \<open>the \<^verbatim>\<open>z_getoperationstatus\<close> request for \<^verbatim>\<open>["opid-1"]\<close>\<close>
  "status_request n =
     \<lparr>rpc_method = ''z_getoperationstatus'', params = [PList [PStr ''opid-1'']], rid = n\<rparr>"

definition failed_status :: jtok where
  \<comment> \<open>the body of \<^verbatim>\<open>z_getoperationstatus\<close> for an operation that failed\<close>
  "failed_status =
     reply (TArr [TObj [(''id'', TStr ''opid-1''), (''status'', TStr ''failed''),
                        (''error'', TObj [(''code'', TNum ''-6''),
                                          (''message'', TStr ''Insufficient funds'')])]])"

definition sleeps :: "event list \<Rightarrow> nat" where
  \<comment> \<open>how many \<^verbatim>\<open>time.sleep(1)\<close> a trace holds\<close>
  "sleeps tr = length (filter (\<lambda>ev. ev = Sleep 1) tr)"

section \<open>The empty-memo sentinel\<close>

lemma dropWhile_replicate_same:
  "dropWhile (\<lambda>c. c = x) (replicate n x @ ys) = dropWhile (\<lambda>c. c = x) ys"
  by (induction n) auto

lemma rstrip0_append_zeros: "rstrip0 (s @ replicate n CHR ''0'') = rstrip0 s"
  by (simp add: rstrip0_def dropWhile_replicate_same)

text \<open>
  Claim C4. For every \<open>n \<ge> 0\<close>, decoding the memo \<^verbatim>\<open>"f6"\<close> followed by \<open>n\<close>
  characters \<^verbatim>\<open>'0'\<close> yields no message (Python's \<^verbatim>\<open>None\<close>): neither an exception
  nor a text.
\<close>

theorem hex_decode_sentinel:
  "hex_decode (''f6'' @ replicate n CHR ''0'') = Inr None"
proof -
  have "rstrip0 (''f6'' @ replicate n CHR ''0'') = rstrip0 ''f6''"
    by (rule rstrip0_append_zeros)
  also have "rstrip0 ''f6'' = ''f6''"
    by (simp add: rstrip0_def)
  finally show ?thesis
    by (simp add: hex_decode_def)
qed

section \<open>The memo round trip\<close>

lemma hexdigit_table:
  "\<forall>n\<in>{0..<16}. hexval (hexdigit n) = Some n \<and> (of_char (hexdigit n) :: nat) < 128
      \<and> (0 < n \<longrightarrow> hexdigit n \<noteq> CHR ''0'') \<and> (n < 15 \<longrightarrow> hexdigit n \<noteq> CHR ''f'')"
  by code_simp

lemma hexval_hexdigit: "n < 16 \<Longrightarrow> hexval (hexdigit n) = Some n"
  using hexdigit_table by simp

lemma hexdigit_ascii: "n < 16 \<Longrightarrow> (of_char (hexdigit n) :: nat) < 128"
  using hexdigit_table by simp

lemma hexdigit_not_zero: "0 < n \<Longrightarrow> n < 16 \<Longrightarrow> hexdigit n \<noteq> CHR ''0''"
  using hexdigit_table by simp

lemma hexdigit_not_f: "n < 15 \<Longrightarrow> hexdigit n \<noteq> CHR ''f''"
  using hexdigit_table by simp

lemma length_b2a_hex: "length (b2a_hex bs) = 2 * length bs"
  by (induction bs) (simp_all add: b2a_hex_def)

lemma b2a_hex_Cons: "b2a_hex (b # bs) = hexdigit (b div 16) # hexdigit (b mod 16) # b2a_hex bs"
  by (simp add: b2a_hex_def)

lemma b2a_hex_append: "b2a_hex (as @ bs) = b2a_hex as @ b2a_hex bs"
  by (simp add: b2a_hex_def)

lemma unhex_pairs_b2a_hex: "list_all (\<lambda>b. b < 256) bs \<Longrightarrow> unhex_pairs (b2a_hex bs) = Some bs"
proof (induction bs)
  case Nil
  then show ?case by (simp add: b2a_hex_def)
next
  case (Cons b bs)
  then have b: "b < 256" and bs: "unhex_pairs (b2a_hex bs) = Some bs" by simp_all
  from b have "b div 16 < 16" by simp
  then have h: "hexval (hexdigit (b div 16)) = Some (b div 16)" by (rule hexval_hexdigit)
  have l: "hexval (hexdigit (b mod 16)) = Some (b mod 16)" by (rule hexval_hexdigit) simp
  show ?case by (simp add: b2a_hex_Cons h l bs)
qed

lemma b2a_hex_ascii: "list_all (\<lambda>b. b < 256) bs \<Longrightarrow> list_all (\<lambda>c. (of_char c :: nat) < 128) (b2a_hex bs)"
proof (induction bs)
  case Nil
  then show ?case by (simp add: b2a_hex_def)
next
  case (Cons b bs)
  then have b: "b < 256" by simp
  then have "b div 16 < 16" by simp
  then have h: "(of_char (hexdigit (b div 16)) :: nat) < 128" by (rule hexdigit_ascii)
  have l: "(of_char (hexdigit (b mod 16)) :: nat) < 128" by (rule hexdigit_ascii) simp
  from Cons show ?case by (simp add: b2a_hex_Cons h l)
qed

lemma rstrip0_snoc2:
  assumes "d1 \<noteq> CHR ''0''"
  shows "rstrip0 (xs @ [d1, d2]) = (if d2 = CHR ''0'' then xs @ [d1] else xs @ [d1, d2])"
  using assms by (simp add: rstrip0_def)

lemma printable_bytes: "printable s \<Longrightarrow> list_all (\<lambda>b. b < 256) (map (of_char :: char \<Rightarrow> nat) s)"
  by (induction s) (simp_all add: printable_def)

lemma printable_ascii: "printable s \<Longrightarrow> list_all (\<lambda>c. (of_char c :: nat) < 128) s"
  by (induction s) (simp_all add: printable_def)

lemma printable_strip:
  assumes "printable s" "s \<noteq> []" "even (length (rstrip0 (b2a_hex (map of_char s))))"
  shows "rstrip0 (b2a_hex (map of_char s)) = b2a_hex (map of_char s)"
proof -
  from assms(2) obtain t c where s: "s = t @ [c]" by (metis rev_exhaust)
  let ?n = "of_char c :: nat"
  from assms(1) s have c: "32 \<le> ?n" "?n \<le> 126" by (simp_all add: printable_def)
  then have "0 < ?n div 16" "?n div 16 < 16" by simp_all
  then have d1: "hexdigit (?n div 16) \<noteq> CHR ''0''" by (rule hexdigit_not_zero)
  have h: "b2a_hex (map of_char s) =
      b2a_hex (map of_char t) @ [hexdigit (?n div 16), hexdigit (?n mod 16)]"
    by (simp add: s b2a_hex_append b2a_hex_Cons) (simp add: b2a_hex_def)
  show ?thesis
  proof (cases "hexdigit (?n mod 16) = CHR ''0''")
    case True
    then have "rstrip0 (b2a_hex (map of_char s)) = b2a_hex (map of_char t) @ [hexdigit (?n div 16)]"
      unfolding h using rstrip0_snoc2 [OF d1] by simp
    then have "odd (length (rstrip0 (b2a_hex (map of_char s))))"
      by (simp add: length_b2a_hex)
    with assms(3) show ?thesis by simp
  next
    case False
    then show ?thesis unfolding h using rstrip0_snoc2 [OF d1] by simp
  qed
qed

lemma printable_not_sentinel:
  assumes "printable s"
  shows "b2a_hex (map of_char s) \<noteq> ''f6''"
proof (cases s)
  case Nil
  then show ?thesis by (simp add: b2a_hex_def)
next
  case (Cons c t)
  with assms have "(of_char c :: nat) \<le> 126" by (simp add: printable_def)
  then have "(of_char c :: nat) div 16 < 15" by simp
  then have "hexdigit ((of_char c :: nat) div 16) \<noteq> CHR ''f''" by (rule hexdigit_not_f)
  then show ?thesis by (simp add: Cons b2a_hex_Cons)
qed

lemma char_of_of_char_list: "map char_of (map (of_char :: char \<Rightarrow> nat) s) = s"
  by (induction s) simp_all

lemma strip_even_iff:
  assumes "printable s" "s \<noteq> []"
  shows "even (length (rstrip0 (b2a_hex (map of_char s)))) \<longleftrightarrow> (of_char (last s) :: nat) mod 16 \<noteq> 0"
proof -
  from assms(2) obtain t c where s: "s = t @ [c]" by (metis rev_exhaust)
  let ?n = "of_char c :: nat"
  from assms(1) s have c: "32 \<le> ?n" "?n \<le> 126" by (simp_all add: printable_def)
  then have "0 < ?n div 16" "?n div 16 < 16" by simp_all
  then have d1: "hexdigit (?n div 16) \<noteq> CHR ''0''" by (rule hexdigit_not_zero)
  have h: "b2a_hex (map of_char s) =
      b2a_hex (map of_char t) @ [hexdigit (?n div 16), hexdigit (?n mod 16)]"
    by (simp add: s b2a_hex_append b2a_hex_Cons) (simp add: b2a_hex_def)
  have z: "hexdigit (?n mod 16) = CHR ''0'' \<longleftrightarrow> ?n mod 16 = 0"
  proof
    assume "hexdigit (?n mod 16) = CHR ''0''"
    then show "?n mod 16 = 0"
      using hexdigit_not_zero [of "?n mod 16"] by (cases "?n mod 16 = 0") simp_all
  next
    assume "?n mod 16 = 0"
    then show "hexdigit (?n mod 16) = CHR ''0''" by (simp add: hexdigit_def)
  qed
  show ?thesis
    unfolding h using rstrip0_snoc2 [OF d1, of "b2a_hex (map of_char t)" "hexdigit (?n mod 16)"]
    by (simp add: length_b2a_hex z s)
qed

text \<open>
  Claim C3, as stated: for every string \<open>s\<close> of printable ASCII characters, whose hex
  representation has even length, \<^verbatim>\<open>hex_decode\<close> of the memo that \<^verbatim>\<open>format_amounts\<close>
  produces for \<open>s\<close> is \<open>s\<close>. It fails for the message \<^verbatim>\<open>"P"\<close>: its memo is
  \<^verbatim>\<open>"50"\<close>, two characters, \<^verbatim>\<open>rstrip('0')\<close> leaves \<^verbatim>\<open>"5"\<close>, and \<^verbatim>\<open>unhexlify\<close> raises
  \<^verbatim>\<open>binascii.Error\<close>. It has no memo to speak of for the empty message either:
  \<^verbatim>\<open>format_amounts\<close> leaves the \<^verbatim>\<open>memo\<close> key out.
\<close>

theorem memo_roundtrip_counterexample:
  "printable ''P'' \<and> even (length (b2a_hex (map of_char ''P''))) \<and>
   format_amounts (PStr ''z'') (PInt 1) ''P'' =
     Inr (PList [PDict [(''address'', PStr ''z''), (''amount'', PInt 1), (''memo'', PStr ''50'')]]) \<and>
   hex_decode ''50'' = Inl BinasciiError \<and>
   format_amounts (PStr ''z'') (PInt 1) [] =
     Inr (PList [PDict [(''address'', PStr ''z''), (''amount'', PInt 1)]])"
  by code_simp

text \<open>
  Claim C3, amended: for every non-empty string \<open>s\<close> of printable ASCII characters whose
  hex representation still has even length after \<^verbatim>\<open>rstrip('0')\<close> (by \<open>strip_even_iff\<close>:
  whose last character's code is no multiple of 16), \<^verbatim>\<open>format_amounts\<close> produces the memo
  \<^verbatim>\<open>b2a_hex\<close> of \<open>s\<close>, and \<^verbatim>\<open>hex_decode\<close> of that memo returns \<open>s\<close>.
\<close>

theorem memo_roundtrip:
  assumes "s \<noteq> []" "printable s" "even (length (rstrip0 (b2a_hex (map of_char s))))"
  shows "format_amounts receiver amount s =
           Inr (PList [PDict [(''address'', receiver), (''amount'', amount),
                              (''memo'', PStr (b2a_hex (map of_char s)))]])
         \<and> hex_decode (b2a_hex (map of_char s)) = Inr (Some s)"
proof -
  let ?h = "b2a_hex (map of_char s)"
  have asc: "list_all (\<lambda>c. (of_char c :: nat) < 128) s" using assms(2) by (rule printable_ascii)
  have bts: "list_all (\<lambda>b. b < 256) (map (of_char :: char \<Rightarrow> nat) s)" using assms(2) by (rule printable_bytes)
  have enc: "encode_ascii s = Inr (map of_char s)" using asc by (simp add: encode_ascii_def)
  have fa: "format_amounts receiver amount s =
           Inr (PList [PDict [(''address'', receiver), (''amount'', amount), (''memo'', PStr ?h)]])"
    using assms(1) by (simp add: format_amounts_def enc)
  have strip: "rstrip0 ?h = ?h" using assms(2,1,3) by (rule printable_strip)
  have ns: "?h \<noteq> ''f6''" using assms(2) by (rule printable_not_sentinel)
  have un: "unhexlify ?h = Inr (map of_char s)"
    by (simp add: unhexlify_def b2a_hex_ascii [OF bts] length_b2a_hex unhex_pairs_b2a_hex [OF bts])
  have b128: "list_all (\<lambda>b. b < 128) (map (of_char :: char \<Rightarrow> nat) s)"
    using asc by (induction s) simp_all
  have dec: "decode_ascii (map of_char s) = Inr s"
    using b128 by (simp add: decode_ascii_def char_of_of_char_list)
  have "hex_decode ?h = Inr (Some s)"
    using ns by (simp add: hex_decode_def strip un dec)
  with fa show ?thesis by simp
qed

theorem memo_roundtrip_witness:
  "''hi'' \<noteq> [] \<and> printable ''hi'' \<and>
   even (length (rstrip0 (b2a_hex (map of_char ''hi'')))) \<and>
   format_amounts (PStr ''z'') (PInt 1) ''hi'' =
     Inr (PList [PDict [(''address'', PStr ''z''), (''amount'', PInt 1), (''memo'', PStr ''6869'')]]) \<and>
   hex_decode ''6869'' = Inr (Some ''hi'')"
proof -
  have h1: "''hi'' \<noteq> []" by simp
  have h2: "printable ''hi''" by code_simp
  have h3: "even (length (rstrip0 (b2a_hex (map of_char ''hi''))))" by code_simp
  have m: "b2a_hex (map of_char ''hi'') = ''6869''" by code_simp
  have r: "format_amounts (PStr ''z'') (PInt 1) ''hi'' =
      Inr (PList [PDict [(''address'', PStr ''z''), (''amount'', PInt 1), (''memo'', PStr ''6869'')]]) \<and>
    hex_decode ''6869'' = Inr (Some ''hi'')"
    using memo_roundtrip [OF h1 h2 h3, of "PStr ''z''" "PInt 1"] unfolding m .
  show ?thesis
    using h1 h2 h3 r by blast
qed


section \<open>Request ids\<close>

lemma call_id_count: "id_count (snd (call E s name args)) = Suc (id_count s)"
  by (simp add: call_def Let_def split: sum.splits)

lemma call_posted:
  "posted (snd (call E s name args)) =
     (if list_all encodable args
      then posted s @ [\<lparr>rpc_method = name, params = args, rid = Suc (id_count s)\<rparr>]
      else posted s)"
  by (simp add: call_def Let_def split: sum.splits)



lemma calls_posted_subseq:
  "\<exists>ks. map rid (posted (calls E s cs)) = map rid (posted s) @ ks \<and>
     sorted_wrt (<) ks \<and> set ks \<subseteq> {Suc (id_count s) ..< Suc (id_count s + length cs)}"
proof (induction cs arbitrary: s)
  case Nil
  then show ?case by simp
next
  case (Cons c cs)
  let ?s = "snd (call E s (fst c) (snd c))"
  from Cons.IH [of ?s] obtain ks where ks: "map rid (posted (calls E ?s cs)) = map rid (posted ?s) @ ks"
    "sorted_wrt (<) ks" "set ks \<subseteq> {Suc (id_count ?s) ..< Suc (id_count ?s + length cs)}"
    by blast
  show ?case
  proof (cases "list_all encodable (snd c)")
    case True
    have "map rid (posted (calls E s (c # cs))) = map rid (posted s) @ (Suc (id_count s) # ks)"
      using ks(1) True by (simp add: call_posted)
    moreover have "sorted_wrt (<) (Suc (id_count s) # ks)"
      using ks(2,3) by (auto simp: call_id_count)
    moreover have "set (Suc (id_count s) # ks) \<subseteq> {Suc (id_count s) ..< Suc (id_count s + length (c # cs))}"
      using ks(3) by (auto simp: call_id_count)
    ultimately show ?thesis by blast
  next
    case False
    have "map rid (posted (calls E s (c # cs))) = map rid (posted s) @ ks"
      using ks(1) False by (simp add: call_posted)
    moreover have "set ks \<subseteq> {Suc (id_count s) ..< Suc (id_count s + length (c # cs))}"
      using ks(3) by (auto simp: call_id_count)
    ultimately show ?thesis using ks(2) by blast
  qed
qed




section \<open>Error classification\<close>

lemma subcls_get_int:
  "subcls_get (PInt c) =
     Inr (if c = - 2 then ForbiddenBySafeModeError
          else if c = - 5 then InvalidAddressOrKeyError
          else if c = - 8 then InvalidParameterError
          else if c = - 25 then VerifyError
          else if c = - 26 then VerifyRejectedError
          else if c = - 27 then VerifyAlreadyInChainError
          else if c = - 28 then InWarmupError
          else JSONRPCError)"
  by (simp add: subcls_get_def SUBCLS_BY_CODE_def)

lemma JSONRPCError_new_int:
  assumes "getitem_str err ''code'' = Inr (PInt c)" "getitem_str err ''message'' = Inr m"
  shows "JSONRPCError_new err =
     RPCError (if c = - 2 then ForbiddenBySafeModeError
          else if c = - 5 then InvalidAddressOrKeyError
          else if c = - 8 then InvalidParameterError
          else if c = - 25 then VerifyError
          else if c = - 26 then VerifyRejectedError
          else if c = - 27 then VerifyAlreadyInChainError
          else if c = - 28 then InWarmupError
          else JSONRPCError) err"
  by (simp only: JSONRPCError_new_def assms bindE_def subcls_get_int sum.case)

text \<open>
  Claim C5. For every RPC response whose \<^verbatim>\<open>error\<close> field is not null (an object with an
  integer \<^verbatim>\<open>code\<close> and a \<^verbatim>\<open>message\<close>, as the node sends it), \<^verbatim>\<open>_call\<close> raises the
  error of the class registered for the code, \<^verbatim>\<open>InvalidAddressOrKeyError\<close> for \<open>-5\<close>, and
  for a code that is not registered the generic \<^verbatim>\<open>JSONRPCError\<close>; in each case the
  exception carries the response's error object, code and message, unchanged.
\<close>

theorem call_error_kind:
  assumes "list_all encodable args"
    and "get_response E (Suc (id_count s)) = Inr response"
    and "getitem_str response ''error'' = Inr err"
    and "getitem_str err ''code'' = Inr (PInt c)"
    and "getitem_str err ''message'' = Inr m"
  shows "fst (call E s service_name args) =
     Inl (RPCError (if c = - 2 then ForbiddenBySafeModeError
          else if c = - 5 then InvalidAddressOrKeyError
          else if c = - 8 then InvalidParameterError
          else if c = - 25 then VerifyError
          else if c = - 26 then VerifyRejectedError
          else if c = - 27 then VerifyAlreadyInChainError
          else if c = - 28 then InWarmupError
          else JSONRPCError) err)"
proof -
  from assms(4) have "err \<noteq> PNone" by (auto simp: getitem_str_def)
  then show ?thesis
    using assms(1,2,3) by (simp add: call_def Let_def JSONRPCError_new_int [OF assms(4,5)])
qed

theorem call_error_kind_witness:
  "list_all encodable [PStr ''ab''] \<and>
   get_response (node [error_doc ''-5'' ''Invalid or non-wallet transaction id''])
       (Suc (id_count init_state)) =
     Inr (PDict [(''result'', PNone),
                 (''error'', PDict [(''code'', PInt (- 5)),
                                    (''message'', PStr ''Invalid or non-wallet transaction id'')]),
                 (''id'', PNone)]) \<and>
   fst (call (node [error_doc ''-5'' ''Invalid or non-wallet transaction id''])
          init_state ''gettransaction'' [PStr ''ab'']) =
     Inl (RPCError InvalidAddressOrKeyError
            (PDict [(''code'', PInt (- 5)),
                    (''message'', PStr ''Invalid or non-wallet transaction id'')])) \<and>
   get_response (node [error_doc ''-999'' ''unknown'']) (Suc (id_count init_state)) =
     Inr (PDict [(''result'', PNone),
                 (''error'', PDict [(''code'', PInt (- 999)), (''message'', PStr ''unknown'')]),
                 (''id'', PNone)]) \<and>
   fst (call (node [error_doc ''-999'' ''unknown'']) init_state ''gettransaction'' [PStr ''ab'']) =
     Inl (RPCError JSONRPCError
            (PDict [(''code'', PInt (- 999)), (''message'', PStr ''unknown'')]))"
proof -
  let ?e5 = "PDict [(''code'', PInt (- 5)),
                    (''message'', PStr ''Invalid or non-wallet transaction id'')]"
  let ?r5 = "PDict [(''result'', PNone), (''error'', ?e5), (''id'', PNone)]"
  let ?e9 = "PDict [(''code'', PInt (- 999)), (''message'', PStr ''unknown'')]"
  let ?r9 = "PDict [(''result'', PNone), (''error'', ?e9), (''id'', PNone)]"
  have a: "list_all encodable [PStr ''ab'']" by simp
  have r5: "get_response (node [error_doc ''-5'' ''Invalid or non-wallet transaction id''])
      (Suc (id_count init_state)) = Inr ?r5" by code_simp
  have g5: "getitem_str ?r5 ''error'' = Inr ?e5" by code_simp
  have c5: "getitem_str ?e5 ''code'' = Inr (PInt (- 5))" by code_simp
  have m5: "getitem_str ?e5 ''message'' = Inr (PStr ''Invalid or non-wallet transaction id'')"
    by code_simp
  have r9: "get_response (node [error_doc ''-999'' ''unknown'']) (Suc (id_count init_state)) =
      Inr ?r9" by code_simp
  have g9: "getitem_str ?r9 ''error'' = Inr ?e9" by code_simp
  have c9: "getitem_str ?e9 ''code'' = Inr (PInt (- 999))" by code_simp
  have m9: "getitem_str ?e9 ''message'' = Inr (PStr ''unknown'')" by code_simp
  have k5: "fst (call (node [error_doc ''-5'' ''Invalid or non-wallet transaction id''])
          init_state ''gettransaction'' [PStr ''ab'']) = Inl (RPCError InvalidAddressOrKeyError ?e5)"
    using call_error_kind [OF a r5 g5 c5 m5, of "''gettransaction''"] by simp
  have k9: "fst (call (node [error_doc ''-999'' ''unknown'']) init_state
          ''gettransaction'' [PStr ''ab'']) = Inl (RPCError JSONRPCError ?e9)"
    using call_error_kind [OF a r9 g9 c9 m9, of "''gettransaction''"] by simp
  show ?thesis using a r5 k5 r9 k9 by blast
qed

lemma synth_343:
  "JSONRPCError_new (PDict [(''code'', PInt (- 343)), (''message'', PStr ''missing JSON-RPC result'')]) =
   RPCError JSONRPCError (PDict [(''code'', PInt (- 343)), (''message'', PStr ''missing JSON-RPC result'')])"
  by (rule trans [OF JSONRPCError_new_int [where c = "- 343" and m = "PStr ''missing JSON-RPC result''"]])
     (simp_all add: getitem_str_def dict_get_def)

lemma synth_342:
  "JSONRPCError_new (PDict [(''code'', PInt (- 342)), (''message'', PStr ''missing HTTP response from server'')]) =
   RPCError JSONRPCError (PDict [(''code'', PInt (- 342)), (''message'', PStr ''missing HTTP response from server'')])"
  by (rule trans [OF JSONRPCError_new_int [where c = "- 342" and m = "PStr ''missing HTTP response from server''"]])
     (simp_all add: getitem_str_def dict_get_def)

text \<open>
  Claim C6. If the decoded response has a null \<^verbatim>\<open>error\<close> field and no \<^verbatim>\<open>result\<close> key,
  \<^verbatim>\<open>_call\<close> raises a \<^verbatim>\<open>JSONRPCError\<close> with the code \<open>-343\<close>; if the HTTP layer yields no
  response object, it raises a \<^verbatim>\<open>JSONRPCError\<close> with the code \<open>-342\<close>. Neither code is
  registered, so both are instances of the base class.
\<close>

theorem call_synthetic_errors:
  assumes "list_all encodable args"
  shows "(get_response E (Suc (id_count s)) = Inr (PDict d) \<and> dict_get d ''error'' = Some PNone \<and>
          dict_get d ''result'' = None \<longrightarrow>
          fst (call E s service_name args) =
            Inl (RPCError JSONRPCError
                  (PDict [(''code'', PInt (- 343)), (''message'', PStr ''missing JSON-RPC result'')])))
       \<and> (http E (Suc (id_count s)) = NoResponse \<longrightarrow>
          fst (call E s service_name args) =
            Inl (RPCError JSONRPCError
                  (PDict [(''code'', PInt (- 342)),
                          (''message'', PStr ''missing HTTP response from server'')])))"
proof (intro conjI impI)
  assume a: "get_response E (Suc (id_count s)) = Inr (PDict d) \<and> dict_get d ''error'' = Some PNone \<and>
          dict_get d ''result'' = None"
  then have "getitem_str (PDict d) ''error'' = Inr PNone" by (simp add: getitem_str_def)
  with a assms show "fst (call E s service_name args) =
            Inl (RPCError JSONRPCError
                  (PDict [(''code'', PInt (- 343)), (''message'', PStr ''missing JSON-RPC result'')]))"
    by (simp add: call_def Let_def synth_343)
next
  assume "http E (Suc (id_count s)) = NoResponse"
  then have "get_response E (Suc (id_count s)) =
      Inl (RPCError JSONRPCError
                  (PDict [(''code'', PInt (- 342)),
                          (''message'', PStr ''missing HTTP response from server'')]))"
    by (simp add: get_response_def synth_342)
  with assms show "fst (call E s service_name args) =
            Inl (RPCError JSONRPCError
                  (PDict [(''code'', PInt (- 342)),
                          (''message'', PStr ''missing HTTP response from server'')]))"
    by (simp add: call_def Let_def)
qed

theorem call_synthetic_errors_witness:
  "list_all encodable [PStr ''ab''] \<and>
   get_response (node [TObj [(''error'', TNull), (''id'', TNum ''1'')]]) (Suc (id_count init_state)) =
     Inr (PDict [(''error'', PNone), (''id'', PInt 1)]) \<and>
   dict_get [(''error'', PNone), (''id'', PInt 1)] ''error'' = Some PNone \<and>
   dict_get [(''error'', PNone), (''id'', PInt 1)] ''result'' = None \<and>
   fst (call (node [TObj [(''error'', TNull), (''id'', TNum ''1'')]]) init_state
          ''gettransaction'' [PStr ''ab'']) =
     Inl (RPCError JSONRPCError
            (PDict [(''code'', PInt (- 343)), (''message'', PStr ''missing JSON-RPC result'')])) \<and>
   http ((node [])\<lparr>http := \<lambda>n. NoResponse\<rparr>) (Suc (id_count init_state)) = NoResponse \<and>
   fst (call ((node [])\<lparr>http := \<lambda>n. NoResponse\<rparr>) init_state ''gettransaction'' [PStr ''ab'']) =
     Inl (RPCError JSONRPCError
            (PDict [(''code'', PInt (- 342)),
                    (''message'', PStr ''missing HTTP response from server'')]))"
proof -
  let ?d = "[(''error'', PNone), (''id'', PInt 1)]"
  let ?E = "node [TObj [(''error'', TNull), (''id'', TNum ''1'')]]"
  let ?N = "(node [])\<lparr>http := \<lambda>n. NoResponse\<rparr>"
  have a: "list_all encodable [PStr ''ab'']" by simp
  have r: "get_response ?E (Suc (id_count init_state)) = Inr (PDict ?d)" by code_simp
  have e: "dict_get ?d ''error'' = Some PNone" by code_simp
  have n: "dict_get ?d ''result'' = None" by code_simp
  have h: "http ?N (Suc (id_count init_state)) = NoResponse" by simp
  have 1: "fst (call ?E init_state ''gettransaction'' [PStr ''ab'']) =
     Inl (RPCError JSONRPCError
            (PDict [(''code'', PInt (- 343)), (''message'', PStr ''missing JSON-RPC result'')]))"
    using call_synthetic_errors [OF a, of ?E init_state ?d "''gettransaction''"] r e n by blast
  have 2: "fst (call ?N init_state ''gettransaction'' [PStr ''ab'']) =
     Inl (RPCError JSONRPCError
            (PDict [(''code'', PInt (- 342)),
                    (''message'', PStr ''missing HTTP response from server'')]))"
    using call_synthetic_errors [OF a, of ?N init_state ?d "''gettransaction''"] h by blast
  show ?thesis using a r e n 1 h 2 by blast
qed


section \<open>Exact decoding of numbers\<close>




















lemma int_limit_examples:
  "int_new 4300 False (replicate 4301 CHR ''1'') = Inl ValueError"
  "int_new 4300 True (replicate 4300 CHR ''1'') = Inr (py_int True (replicate 4300 CHR ''1''))"
  by (simp_all add: int_new_def)




section \<open>The send workflow\<close>

lemma py_eq_str: "py_eq v (SStr s) \<longleftrightarrow> v = PStr s"
  by (cases v) (auto simp: py_eq_def split: scalar.splits option.splits)

lemma py_eq_None: "py_eq v SNone \<longleftrightarrow> v = PNone"
  by (cases v) (auto simp: py_eq_def split: scalar.splits option.splits)

lemma poll_loop_done:
  "\<not> py_eq status (SStr ''executing'') \<Longrightarrow>
   poll_loop E fuel s opid start_time status = Some (Inr (), s)"
  by (cases fuel) simp_all

lemma format_amounts_hi:
  "format_amounts (PStr ''z-receiver'') (Atom (SFloat float_0_0001)) ''hi'' =
     Inr (PList [PDict [(''address'', PStr ''z-receiver''),
                        (''amount'', Atom (SFloat float_0_0001)),
                        (''memo'', PStr ''6869'')]])"
  by (simp add: format_amounts_def encode_ascii_def b2a_hex_def hexdigit_def)

lemmas send_defs =
  send_msg_def submit_and_poll_def find_unspent_taddr_def listunspent_def z_sendmany_def
  z_getoperationstatus_def py_str_def call_def Let_def get_response_def script_def
  op_status_def failed_status_def reply_def getitem_str_def dict_get_def status_of_def
  error_of_def bindE_def getitem0_def py_iter_def init_state_def emit_def time_time_def
  sendmany_request_def status_request_def JSONRPCError_new_def

text \<open>
  Inside the loop a \<^verbatim>\<open>failed\<close> status raises \<^verbatim>\<open>Exception\<close> with the attached error,
  whatever the fuel left.
\<close>

lemma poll_loop_failed:
  assumes "z_getoperationstatus E (emit s WriteDot) (PList [opid]) = (Inr response_array, s1)"
    and "status_of response_array = Inr (PStr ''failed'')"
    and "error_of response_array = Inr err"
  shows "poll_loop E (Suc fuel) s opid start_time (PStr ''executing'') =
           Some (Inl (PyException err), emit s1 (PrintFailed opid))"
  using assms by (simp add: py_eq_str)

lemma send_msg_later_poll_failed:
  "send_msg (E\<lparr>http := script [reply (TStr ''opid-1''), op_status ''executing'', failed_status]\<rparr>)
     (Suc fuel) init_state (PStr ''t-sender'') (PStr ''z-receiver'') (SFloat float_0_0001) ''hi'' =
   Some (Inl (PyException (PDict [(''code'', PInt (- 6)),
                                  (''message'', PStr ''Insufficient funds'')])),
     \<lparr>id_count = 3,
      posted = [sendmany_request ''t-sender'' 1, status_request 2, status_request 3],
      ticks = 1,
      trace = [PrintStatus (PStr ''executing'') (PStr ''opid-1''), WriteSending, WriteDot,
               PrintFailed (PStr ''opid-1'')]\<rparr>)"
  unfolding send_msg_def format_amounts_hi
  by (simp add: send_defs py_eq_str py_eq_None loads_number_def scan_number_def scan_frac_def
      scan_exp_def is_digit_def py_int_def int_new_def digits_val_def)

text \<open>
  Claim C2 says that a \<^verbatim>\<open>failed\<close> status always raises, the first poll after submission
  included. The code at that input: \<^verbatim>\<open>z_sendmany\<close> returns \<^verbatim>\<open>"opid-1"\<close>, the first
  \<^verbatim>\<open>z_getoperationstatus\<close> answers \<^verbatim>\<open>failed\<close> with an error attached; the loop is never
  entered and \<^verbatim>\<open>send_msg\<close> returns normally, with any fuel.
\<close>

theorem send_msg_first_poll_failed:
  "send_msg (E\<lparr>http := script [reply (TStr ''opid-1''), failed_status]\<rparr>)
     fuel init_state (PStr ''t-sender'') (PStr ''z-receiver'') (SFloat float_0_0001) ''hi'' =
   Some (Inr (),
     \<lparr>id_count = 2,
      posted = [sendmany_request ''t-sender'' 1, status_request 2],
      ticks = 1,
      trace = [PrintStatus (PStr ''failed'') (PStr ''opid-1''), WriteSending]\<rparr>)"
  unfolding send_msg_def format_amounts_hi
  by (simp add: send_defs py_eq_str py_eq_None poll_loop_done loads_number_def scan_number_def
      scan_frac_def scan_exp_def is_digit_def py_int_def int_new_def digits_val_def)

text \<open>
  Claim C9, as stated: submission returns \<^verbatim>\<open>"opid-1"\<close>, the polls return \<^verbatim>\<open>executing\<close>,
  \<^verbatim>\<open>executing\<close>, \<^verbatim>\<open>success\<close>, and the workflow reports success after exactly 2
  sleeps. The run sleeps once: the first poll is made before the loop and nothing
  sleeps between it and the second.
\<close>

theorem send_three_polls_counterexample:
  "send_msg (node [reply (TStr ''opid-1''), op_status ''executing'', op_status ''executing'',
                   op_status ''success''])
     2 init_state (PStr ''t-sender'') (PStr ''z-receiver'') (SFloat float_0_0001) ''hi'' =
   Some (Inr (),
     \<lparr>id_count = 4,
      posted = [sendmany_request ''t-sender'' 1, status_request 2, status_request 3,
                status_request 4],
      ticks = 1,
      trace = [PrintStatus (PStr ''executing'') (PStr ''opid-1''), WriteSending,
               WriteDot, Sleep 1, WriteDot, PrintSuccess (PStr ''opid-1'')]\<rparr>) \<and>
   sleeps [PrintStatus (PStr ''executing'') (PStr ''opid-1''), WriteSending,
           WriteDot, Sleep 1, WriteDot, PrintSuccess (PStr ''opid-1'')] \<noteq> 2"
  by code_simp

text \<open>
  Claim C9, amended: with those answers the workflow reports success with operation id
  \<^verbatim>\<open>"opid-1"\<close> after exactly 1 one-second sleep; two units of fuel (two iterations of the
  loop) are enough, and more change nothing.
\<close>

theorem send_three_polls:
  assumes "2 \<le> fuel"
  shows "send_msg
      (E\<lparr>http := script [reply (TStr ''opid-1''), op_status ''executing'',
                         op_status ''executing'', op_status ''success'']\<rparr>)
      fuel init_state (PStr ''t-sender'') (PStr ''z-receiver'') (SFloat float_0_0001) ''hi'' =
    Some (Inr (),
     \<lparr>id_count = 4,
      posted = [sendmany_request ''t-sender'' 1, status_request 2, status_request 3,
                status_request 4],
      ticks = 1,
      trace = [PrintStatus (PStr ''executing'') (PStr ''opid-1''), WriteSending,
               WriteDot, Sleep 1, WriteDot, PrintSuccess (PStr ''opid-1'')]\<rparr>)
    \<and> sleeps [PrintStatus (PStr ''executing'') (PStr ''opid-1''), WriteSending,
               WriteDot, Sleep 1, WriteDot, PrintSuccess (PStr ''opid-1'')] = 1"
proof -
  from assms obtain k where fuel: "fuel = Suc (Suc k)"
    by (metis Suc_le_D numeral_2_eq_2 Suc_le_mono le_Suc_ex add_Suc add_2_eq_Suc)
  show ?thesis
    unfolding fuel send_msg_def format_amounts_hi
    by (simp add: send_defs py_eq_str py_eq_None poll_loop_done sleeps_def)
qed

theorem send_three_polls_witness:
  "(2::nat) \<le> 3 \<and>
   send_msg
      ((node [])\<lparr>http := script [reply (TStr ''opid-1''), op_status ''executing'',
                         op_status ''executing'', op_status ''success'']\<rparr>)
      3 init_state (PStr ''t-sender'') (PStr ''z-receiver'') (SFloat float_0_0001) ''hi'' =
    Some (Inr (),
     \<lparr>id_count = 4,
      posted = [sendmany_request ''t-sender'' 1, status_request 2, status_request 3,
                status_request 4],
      ticks = 1,
      trace = [PrintStatus (PStr ''executing'') (PStr ''opid-1''), WriteSending,
               WriteDot, Sleep 1, WriteDot, PrintSuccess (PStr ''opid-1'')]\<rparr>)"
proof -
  have h: "(2::nat) \<le> 3" by simp
  from send_three_polls [OF h, of "node []"] h show ?thesis by blast
qed


section \<open>Sender selection\<close>

lemma find_loop_first:
  assumes "list_all (\<lambda>tx. skips tx amount) pre" "selects tx amount addr"
  shows "find_loop (pre @ tx # post) amount = Inr addr"
  using assms
  by (induction pre) (auto simp: skips_def selects_def split: sum.splits if_splits)

lemma find_loop_none:
  assumes "list_all (\<lambda>tx. skips tx amount) txs"
  shows "find_loop txs amount = Inr PNone"
  using assms
  by (induction txs) (auto simp: skips_def split: sum.splits if_splits)

text \<open>
  The selection itself is positional: of the outputs \<^verbatim>\<open>0.0001\<close> (not spendable),
  \<^verbatim>\<open>0.001\<close> and \<^verbatim>\<open>0.1\<close> (both spendable) and the amount \<^verbatim>\<open>0.0005\<close>, the address of the
  second is returned.
\<close>

lemma find_unspent_taddr_example:
  "fst (find_unspent_taddr
     (node [reply (TArr
        [TObj [(''address'', TStr ''t1''), (''amount'', TNum ''0.0001''), (''spendable'', TBool False)],
         TObj [(''address'', TStr ''t2''), (''amount'', TNum ''0.001''), (''spendable'', TBool True)],
         TObj [(''address'', TStr ''t3''), (''amount'', TNum ''0.1''), (''spendable'', TBool True)]])])
     init_state (SDec (Decimal False 5 (- 4)))) = Inr (PStr ''t2'')"
  by code_simp

text \<open>
  Claim C1 says that with no sender and no spendable output above the amount the
  workflow fails with NoFundsAvailable instead of going on with an absent sender. The
  code at that input: \<^verbatim>\<open>listunspent\<close> returns \<^verbatim>\<open>[]\<close>, \<^verbatim>\<open>find_unspent_taddr\<close> falls off
  its loop and returns \<^verbatim>\<open>None\<close>, and \<^verbatim>\<open>send_msg\<close> submits \<^verbatim>\<open>z_sendmany\<close> from the
  address \<^verbatim>\<open>str(None)\<close>; when the node accepts the operation, \<^verbatim>\<open>send_msg\<close> returns
  normally.
\<close>

theorem send_msg_no_funds:
  "send_msg (E\<lparr>http := script [reply (TArr []), reply (TStr ''opid-1''), op_status ''success'']\<rparr>)
     fuel init_state PNone (PStr ''z-receiver'') (SFloat float_0_0001) ''hi'' =
   Some (Inr (),
     \<lparr>id_count = 3,
      posted = [\<lparr>rpc_method = ''listunspent'', params = [PInt 0, PInt 9999999], rid = 1\<rparr>,
                sendmany_request ''None'' 2, status_request 3],
      ticks = 1,
      trace = [PrintNoFrom PNone, PrintStatus (PStr ''success'') (PStr ''opid-1''),
               WriteSending]\<rparr>)"
  unfolding send_msg_def format_amounts_hi
  by (simp add: send_defs py_eq_str py_eq_None poll_loop_done)

section \<open>The receive workflow\<close>

lemma hex_decode_zeros: "hex_decode (replicate n CHR ''0'') = Inr (Some [])"
proof -
  have "rstrip0 ([] @ replicate n CHR ''0'') = rstrip0 []" by (rule rstrip0_append_zeros)
  then have "rstrip0 (replicate n CHR ''0'') = []" by (simp add: rstrip0_def)
  then show ?thesis
    by (simp add: hex_decode_def unhexlify_def decode_ascii_def)
qed

text \<open>
  Claim C10. For every \<open>n \<ge> 1\<close> (and for \<open>n = 0\<close> as well), \<^verbatim>\<open>hex_decode\<close> of a memo of
  \<open>n\<close> characters \<^verbatim>\<open>'0'\<close> returns the empty string, not \<^verbatim>\<open>None\<close>; so the loop of
  \<^verbatim>\<open>received_by_zaddr\<close>, at a record with such a memo, fetches the parent transaction
  and appends a message whose memo text is empty, then goes on with the state the fetch
  left.
\<close>

theorem zero_memo_is_message:
  assumes "1 \<le> n"
    and "getitem_str tx ''memo'' = Inr (PStr (replicate n CHR ''0''))"
    and "getitem_str tx ''txid'' = Inr txid"
    and "gettransaction E s txid = (Inr resp, s')"
    and "getitem_str resp ''time'' = Inr tm"
    and "ctime E tm = Inr t"
    and "getitem_str tx ''amount'' = Inr amount"
  shows "hex_decode (replicate n CHR ''0'') = Inr (Some []) \<and>
         received_loop E s (tx # rest) msgs =
           received_loop E s' rest
             (msgs @ [PDict [(''time'', PStr t), (''amount'', amount), (''memo'', PStr [])]])"
  using assms by (simp add: hex_decode_zeros hex_decode_val_def bindE_def)

theorem zero_memo_is_message_witness:
  "(1::nat) \<le> 3 \<and>
   hex_decode (replicate 3 CHR ''0'') = Inr (Some []) \<and>
   received_loop (node [reply (TObj [(''time'', TNum ''0'')])]) init_state
     [PDict [(''txid'', PStr ''ab''), (''amount'', PDec (Decimal False 15 (- 1))),
             (''memo'', PStr ''000'')]] [] =
     (Inr [PDict [(''time'', PStr ''Thu Jan  1 00:00:00 1970''),
                  (''amount'', PDec (Decimal False 15 (- 1))), (''memo'', PStr [])]],
      \<lparr>id_count = 1,
       posted = [\<lparr>rpc_method = ''gettransaction'', params = [PStr ''ab''], rid = 1\<rparr>],
       ticks = 0, trace = []\<rparr>) \<and>
   received_by_zaddr
     (node [reply (TArr [TObj [(''txid'', TStr ''ab''), (''amount'', TNum ''1.5''),
                               (''memo'', TStr ''000'')]]),
            reply (TObj [(''time'', TNum ''0'')])])
     init_state (PStr ''zaddr'') (PInt 1) =
     (Inr [PDict [(''time'', PStr ''Thu Jan  1 00:00:00 1970''),
                  (''amount'', PDec (Decimal False 15 (- 1))), (''memo'', PStr [])]],
      \<lparr>id_count = 2,
       posted = [\<lparr>rpc_method = ''z_listreceivedbyaddress'', params = [PStr ''zaddr'', PInt 1],
                  rid = 1\<rparr>,
                 \<lparr>rpc_method = ''gettransaction'', params = [PStr ''ab''], rid = 2\<rparr>],
       ticks = 0, trace = []\<rparr>)"
proof -
  let ?E = "node [reply (TObj [(''time'', TNum ''0'')])]"
  let ?tx = "PDict [(''txid'', PStr ''ab''), (''amount'', PDec (Decimal False 15 (- 1))),
                    (''memo'', PStr ''000'')]"
  let ?s' = "\<lparr>id_count = 1,
       posted = [\<lparr>rpc_method = ''gettransaction'', params = [PStr ''ab''], rid = 1\<rparr>],
       ticks = 0, trace = []\<rparr>"
  have n: "(1::nat) \<le> 3" by simp
  have z: "replicate 3 CHR ''0'' = ''000''" by code_simp
  have m: "getitem_str ?tx ''memo'' = Inr (PStr (replicate 3 CHR ''0''))" by code_simp
  have i: "getitem_str ?tx ''txid'' = Inr (PStr ''ab'')" by code_simp
  have g: "gettransaction ?E init_state (PStr ''ab'') = (Inr (PDict [(''time'', PInt 0)]), ?s')"
    by code_simp
  have tm: "getitem_str (PDict [(''time'', PInt 0)]) ''time'' = Inr (PInt 0)" by code_simp
  have c: "ctime ?E (PInt 0) = Inr ''Thu Jan  1 00:00:00 1970''" by code_simp
  have a: "getitem_str ?tx ''amount'' = Inr (PDec (Decimal False 15 (- 1)))" by code_simp
  note inst = zero_memo_is_message [OF n m i g tm c a, of "[]" "[]"]
  have 1: "hex_decode (replicate 3 CHR ''0'') = Inr (Some [])" using inst by blast
  have 2: "received_loop ?E init_state [?tx] [] =
     (Inr [PDict [(''time'', PStr ''Thu Jan  1 00:00:00 1970''),
                  (''amount'', PDec (Decimal False 15 (- 1))), (''memo'', PStr [])]], ?s')"
    using inst by simp
  have 3: "received_by_zaddr
     (node [reply (TArr [TObj [(''txid'', TStr ''ab''), (''amount'', TNum ''1.5''),
                               (''memo'', TStr ''000'')]]),
            reply (TObj [(''time'', TNum ''0'')])])
     init_state (PStr ''zaddr'') (PInt 1) =
     (Inr [PDict [(''time'', PStr ''Thu Jan  1 00:00:00 1970''),
                  (''amount'', PDec (Decimal False 15 (- 1))), (''memo'', PStr [])]],
      \<lparr>id_count = 2,
       posted = [\<lparr>rpc_method = ''z_listreceivedbyaddress'', params = [PStr ''zaddr'', PInt 1],
                  rid = 1\<rparr>,
                 \<lparr>rpc_method = ''gettransaction'', params = [PStr ''ab''], rid = 2\<rparr>],
       ticks = 0, trace = []\<rparr>)"
    by code_simp
  show ?thesis using n 1 2 3 by blast
qed


end
